theory Spec2Isabelle
  imports Main
begin

section \<open>Python values and exceptions\<close>

text \<open>
  The values that \<^verbatim>\<open>response.json()\<close> can produce, and the values the tool returns:
  \<^verbatim>\<open>None\<close>, booleans, integers, floats, strings, lists and dictionaries with string keys.
  A dictionary is kept as the list of its entries and read with \<open>map_of\<close>.
  Strings are lists of \<open>char\<close>.
\<close>

datatype pyfloat = Finite int int | PosInf | NegInf | NaN
  \<comment> \<open>\<open>Finite m e\<close> stands for \<open>m * 2 ^ e\<close>; only truthiness is ever asked of a float\<close>

datatype json =
    JNull
  | JBool bool
  | JInt int
  | JFloat pyfloat
  | JStr string
  | JList "json list"
  | JDict "(string \<times> json) list"

text \<open>
  The exceptions that can leave the code. \<open>RequestException\<close> stands for every instance of
  \<^verbatim>\<open>requests.exceptions.RequestException\<close> (its subclasses included) and carries the
  text \<^verbatim>\<open>str(e)\<close>; \<open>OtherException\<close> is any exception of the library that is not one.
\<close>

datatype pyexc =
    RequestException string
  | AttributeError
  | KeyError
  | IndexError
  | TypeError
  | OtherException string

text \<open>Truthiness, as \<^verbatim>\<open>not x\<close> tests it.\<close>

fun truthy :: "json \<Rightarrow> bool" where
  "truthy JNull = False"
| "truthy (JBool b) = b"
| "truthy (JInt i) = (i \<noteq> 0)"
| "truthy (JFloat (Finite m e)) = (m \<noteq> 0)"
| "truthy (JFloat PosInf) = True"
| "truthy (JFloat NegInf) = True"
| "truthy (JFloat NaN) = True"
| "truthy (JStr s) = (s \<noteq> [])"
| "truthy (JList xs) = (xs \<noteq> [])"
| "truthy (JDict kvs) = (kvs \<noteq> [])"

text \<open>\<^verbatim>\<open>x.get(k)\<close>: only a dictionary has the method; a missing key gives \<^verbatim>\<open>None\<close>.\<close>

fun dict_get :: "json \<Rightarrow> string \<Rightarrow> pyexc + json" where
  "dict_get (JDict kvs) k = Inr (case map_of kvs k of None \<Rightarrow> JNull | Some v \<Rightarrow> v)"
| "dict_get _ k = Inl AttributeError"

text \<open>\<^verbatim>\<open>x[k]\<close> with a string key \<open>k\<close>.\<close>

fun getitem_str :: "json \<Rightarrow> string \<Rightarrow> pyexc + json" where
  "getitem_str (JDict kvs) k = (case map_of kvs k of None \<Rightarrow> Inl KeyError | Some v \<Rightarrow> Inr v)"
| "getitem_str _ k = Inl TypeError"

text \<open>
  \<^verbatim>\<open>x[0]\<close>. A list or a string gives its first element, or \<^verbatim>\<open>IndexError\<close> when
  empty; the keys of a parsed JSON object are strings, so \<open>0\<close> is never a key of a
  dictionary; nothing else can be subscripted.
\<close>

fun getitem_0 :: "json \<Rightarrow> pyexc + json" where
  "getitem_0 (JList []) = Inl IndexError"
| "getitem_0 (JList (x # xs)) = Inr x"
| "getitem_0 (JStr []) = Inl IndexError"
| "getitem_0 (JStr (c # cs)) = Inr (JStr [c])"
| "getitem_0 (JDict kvs) = Inl KeyError"
| "getitem_0 _ = Inl TypeError"

text \<open>
  \<^verbatim>\<open>for team in x\<close>: the elements of a list, the characters of a string, the keys of a
  dictionary; anything else is not iterable.
\<close>

fun iterate :: "json \<Rightarrow> pyexc + json list" where
  "iterate (JList xs) = Inr xs"
| "iterate (JStr s) = Inr (map (\<lambda>c. JStr [c]) s)"
| "iterate (JDict kvs) = Inr (map (\<lambda>kv. JStr (fst kv)) kvs)"
| "iterate _ = Inl TypeError"

text \<open>Sequencing of computations that may raise: the first exception wins.\<close>

definition bind_exc :: "pyexc + 'a \<Rightarrow> ('a \<Rightarrow> pyexc + 'b) \<Rightarrow> pyexc + 'b" where
  "bind_exc m f = (case m of Inl e \<Rightarrow> Inl e | Inr x \<Rightarrow> f x)"

text \<open>A list comprehension whose element expression may raise.\<close>

fun comprehension :: "('a \<Rightarrow> pyexc + 'b) \<Rightarrow> 'a list \<Rightarrow> pyexc + 'b list" where
  "comprehension f [] = Inr []"
| "comprehension f (x # xs) =
     bind_exc (f x) (\<lambda>y. bind_exc (comprehension f xs) (\<lambda>ys. Inr (y # ys)))"

section \<open>Strings\<close>

text \<open>
  \<^verbatim>\<open>str.lower()\<close> on the letters \<open>A\<close> to \<open>Z\<close>; every other character of the
  model is left as it is.
\<close>

definition lower_char :: "char \<Rightarrow> char" where
  "lower_char c =
     (case map_of (zip ''ABCDEFGHIJKLMNOPQRSTUVWXYZ'' ''abcdefghijklmnopqrstuvwxyz'') c of
        None \<Rightarrow> c
      | Some d \<Rightarrow> d)"

definition lower :: "string \<Rightarrow> string" where
  "lower s = map lower_char s"

section \<open>Module state and the HTTP library\<close>

definition BASE_URL :: string where
  "BASE_URL = ''https://v3.football.api-sports.io''"

definition LEAGUE_MAP :: "(string \<times> int) list" where
  "LEAGUE_MAP =
     [(''premier league'', 39),
      (''la liga'', 140),
      (''bundesliga'', 78),
      (''serie a'', 135),
      (''ligue 1'', 61),
      (''mls'', 253),
      (''champions league'', 2)]"

text \<open>
  One call of \<^verbatim>\<open>requests.get(endpoint, headers=headers, params=params)\<close>. The API key is
  what \<^verbatim>\<open>os.getenv\<close> gave, \<^verbatim>\<open>None\<close> when the variable is not set.
\<close>

record http_request =
  endpoint :: string
  headers :: "(string \<times> string option) list"
  params :: "(string \<times> json) list"

text \<open>
  The response object: the status code the server sent, the text the library gives the
  \<^verbatim>\<open>HTTPError\<close> it builds for that response, and what \<^verbatim>\<open>json()\<close> does when the
  code calls it (it returns the parsed body, or raises).
\<close>

record response =
  status_code :: int
  http_error_msg :: string
  json_body :: "pyexc + json"

text \<open>
  \<^verbatim>\<open>response.raise_for_status()\<close> of the \<^verbatim>\<open>requests\<close> library: it raises an
  \<^verbatim>\<open>HTTPError\<close> (a \<^verbatim>\<open>RequestException\<close>) for a status from 400 to 599, a client or a
  server error, and returns for every other status, the 1xx and 3xx ones included. The
  result is the text of the exception raised, if any.
\<close>

definition raise_for_status :: "response \<Rightarrow> string option" where
  "raise_for_status resp =
     (if 400 \<le> status_code resp \<and> status_code resp < 600 then Some (http_error_msg resp)
      else None)"

text \<open>
  The module's globals and the calls made to the network so far. The network itself is a
  parameter \<open>net\<close> of the tool: what \<^verbatim>\<open>requests.get\<close> returns or raises for a request.
\<close>

record world =
  registry :: "(string \<times> int) list"
  API_FOOTBALL_KEY :: "string option"
  http_calls :: "http_request list"

definition initial_world :: "string option \<Rightarrow> world" where
  "initial_world key = \<lparr>registry = LEAGUE_MAP, API_FOOTBALL_KEY = key, http_calls = []\<rparr>"

section \<open>The league resolver\<close>

text \<open>\<^verbatim>\<open>LEAGUE_MAP.get(league_name.lower())\<close>, with the module state handed back.\<close>

definition get_league_id :: "world \<Rightarrow> string \<Rightarrow> int option \<times> world" where
  "get_league_id w league_name = (map_of (registry w) (lower league_name), w)"

section \<open>The standings fetcher\<close>

definition error_result :: "string \<Rightarrow> json" where
  "error_result msg = JDict [(''error'', JStr msg)]"

text \<open>\<^verbatim>\<open>not league_id\<close> on the resolver's result: \<^verbatim>\<open>None\<close> and \<open>0\<close> are falsy.\<close>

fun not_league_id :: "int option \<Rightarrow> bool" where
  "not_league_id None = True"
| "not_league_id (Some i) = (i = 0)"

text \<open>The dictionary built for one team by the comprehension, key by key in source order.\<close>

definition format_team :: "json \<Rightarrow> pyexc + json" where
  "format_team team =
     bind_exc (getitem_str team ''rank'') (\<lambda>rank.
     bind_exc (bind_exc (getitem_str team ''team'') (\<lambda>t. getitem_str t ''name'')) (\<lambda>name.
     bind_exc (getitem_str team ''points'') (\<lambda>points.
     bind_exc (bind_exc (getitem_str team ''all'') (\<lambda>a. getitem_str a ''played'')) (\<lambda>played.
     bind_exc (bind_exc (getitem_str team ''all'') (\<lambda>a. getitem_str a ''win'')) (\<lambda>win.
     bind_exc (bind_exc (getitem_str team ''all'') (\<lambda>a. getitem_str a ''draw'')) (\<lambda>draw.
     bind_exc (bind_exc (getitem_str team ''all'') (\<lambda>a. getitem_str a ''lose'')) (\<lambda>lose.
       Inr (JDict
         [(''rank'', rank),
          (''team'', name),
          (''points'', points),
          (''games_played'', played),
          (''wins'', win),
          (''draws'', draw),
          (''losses'', lose)]))))))))"

text \<open>\<^verbatim>\<open>data['response'][0]['league']['standings']\<close>.\<close>

definition standings_of :: "json \<Rightarrow> pyexc + json" where
  "standings_of data =
     bind_exc (getitem_str data ''response'') (\<lambda>r.
     bind_exc (getitem_0 r) (\<lambda>r0.
     bind_exc (getitem_str r0 ''league'') (\<lambda>l.
       getitem_str l ''standings'')))"

text \<open>Lines 92 to 103: the comprehension over \<^verbatim>\<open>standings\<close>.\<close>

definition formatted_standings :: "json \<Rightarrow> pyexc + json" where
  "formatted_standings standings =
     bind_exc (iterate standings) (\<lambda>teams.
     bind_exc (comprehension format_team teams) (\<lambda>records.
       Inr (JList records)))"

text \<open>Lines 85 to 105: what is done with the parsed body.\<close>

definition reshape :: "json \<Rightarrow> pyexc + json" where
  "reshape data =
     bind_exc (dict_get data ''response'') (\<lambda>r.
       if \<not> truthy r then Inr (error_result ''No standings found for this league and season.'')
       else
         bind_exc (standings_of data) (\<lambda>s.
           if \<not> truthy s
           then Inr (error_result ''No standings found for this league and season.'')
           else
             bind_exc (bind_exc (standings_of data) getitem_0) (\<lambda>standings.
               formatted_standings standings)))"

text \<open>The body of the \<^verbatim>\<open>try\<close>, given what \<^verbatim>\<open>requests.get\<close> did.\<close>

definition try_body :: "pyexc + response \<Rightarrow> pyexc + json" where
  "try_body got =
     bind_exc got (\<lambda>resp.
       case raise_for_status resp of
         Some e \<Rightarrow> Inl (RequestException e)
       | None \<Rightarrow> bind_exc (json_body resp) reshape)"

text \<open>The \<^verbatim>\<open>except requests.exceptions.RequestException as e\<close> clause.\<close>

fun except_RequestException :: "pyexc + json \<Rightarrow> pyexc + json" where
  "except_RequestException (Inl (RequestException e)) =
     Inr (error_result (''API request failed: '' @ e))"
| "except_RequestException r = r"

text \<open>The Python value of \<^verbatim>\<open>league_id\<close>, as it goes into \<^verbatim>\<open>params\<close>.\<close>

fun json_of_id :: "int option \<Rightarrow> json" where
  "json_of_id None = JNull"
| "json_of_id (Some i) = JInt i"

definition standings_request :: "world \<Rightarrow> int option \<Rightarrow> string \<Rightarrow> http_request" where
  "standings_request w league_id season =
     \<lparr>endpoint = BASE_URL @ ''/standings'',
      headers = [(''x-rapidapi-key'', API_FOOTBALL_KEY w),
                 (''x-rapidapi-host'', Some ''v3.football.api-sports.io'')],
      params = [(''league'', json_of_id league_id), (''season'', JStr season)]\<rparr>"

definition unknown_league :: "string \<Rightarrow> json" where
  "unknown_league league_name =
     error_result (''Could not find a league with the name '' @ [CHR 0x27] @ league_name
       @ [CHR 0x27] @ ''.'')"

definition get_league_standings ::
  "(http_request \<Rightarrow> pyexc + response) \<Rightarrow> world \<Rightarrow> string \<Rightarrow> string \<Rightarrow> (pyexc + json) \<times> world"
where
  "get_league_standings net w league_name season =
     (case get_league_id w league_name of
        (league_id, w1) \<Rightarrow>
          if not_league_id league_id then (Inr (unknown_league league_name), w1)
          else
            let req = standings_request w1 league_id season
            in (except_RequestException (try_body (net req)),
                w1\<lparr>http_calls := http_calls w1 @ [req]\<rparr>))"

section \<open>Vocabulary of the specification\<close>

text \<open>
  The definitions of this section follow the words of the specification, not the code: they
  say which parsed bodies and which names the statements below are about.
\<close>

text \<open>A field of a JSON object; anything that is not an object has no field.\<close>

fun spec_field :: "json \<Rightarrow> string \<Rightarrow> json option" where
  "spec_field (JDict kvs) k = map_of kvs k"
| "spec_field _ k = None"

text \<open>\<open>a.b\<close>: field \<open>b\<close> of field \<open>a\<close>.\<close>

definition spec_field2 :: "json \<Rightarrow> string \<Rightarrow> string \<Rightarrow> json option" where
  "spec_field2 x a b = (case spec_field x a of None \<Rightarrow> None | Some y \<Rightarrow> spec_field y b)"

text \<open>The standings groups of a body: the array \<open>response[0].league.standings\<close>.\<close>

definition spec_groups :: "json \<Rightarrow> json list option" where
  "spec_groups data =
     (case spec_field data ''response'' of
        Some (JList (r0 # rs)) \<Rightarrow>
          (case spec_field2 r0 ''league'' ''standings'' of
             Some (JList groups) \<Rightarrow> Some groups
           | _ \<Rightarrow> None)
      | _ \<Rightarrow> None)"

text \<open>The team entries of the first group, \<open>response[0].league.standings[0]\<close>.\<close>

definition spec_first_group :: "json \<Rightarrow> json list option" where
  "spec_first_group data =
     (case spec_groups data of
        Some (JList entries # others) \<Rightarrow> Some entries
      | _ \<Rightarrow> None)"

text \<open>
  The Team Standing Record of an entry that has the seven fields \<open>rank\<close>, \<open>team.name\<close>,
  \<open>points\<close>, \<open>all.played\<close>, \<open>all.win\<close>, \<open>all.draw\<close> and \<open>all.lose\<close>; none
  for an entry that lacks one of them.
\<close>

definition spec_record :: "json \<Rightarrow> json option" where
  "spec_record e =
     (case (spec_field e ''rank'', spec_field2 e ''team'' ''name'', spec_field e ''points'',
            spec_field2 e ''all'' ''played'', spec_field2 e ''all'' ''win'',
            spec_field2 e ''all'' ''draw'', spec_field2 e ''all'' ''lose'') of
        (Some r, Some n, Some p, Some pl, Some w, Some d, Some l) \<Rightarrow>
          Some (JDict [(''rank'', r), (''team'', n), (''points'', p), (''games_played'', pl),
                       (''wins'', w), (''draws'', d), (''losses'', l)])
      | _ \<Rightarrow> None)"

text \<open>An empty value: an empty array, object or string.\<close>

fun spec_empty :: "json \<Rightarrow> bool" where
  "spec_empty (JList []) = True"
| "spec_empty (JDict []) = True"
| "spec_empty (JStr []) = True"
| "spec_empty _ = False"

text \<open>
  Case variants: \<open>s\<close> is a case variant of \<open>k\<close> when it has the same length and differs
  from it at most by the case of its letters.
\<close>

definition upper_char :: "char \<Rightarrow> char" where
  "upper_char c =
     (case map_of (zip ''abcdefghijklmnopqrstuvwxyz'' ''ABCDEFGHIJKLMNOPQRSTUVWXYZ'') c of
        None \<Rightarrow> c
      | Some d \<Rightarrow> d)"

definition spec_same_letter :: "char \<Rightarrow> char \<Rightarrow> bool" where
  "spec_same_letter c d = (c = d \<or> c = upper_char d \<or> upper_char c = d)"

definition spec_case_variant :: "string \<Rightarrow> string \<Rightarrow> bool" where
  "spec_case_variant s k = list_all2 spec_same_letter s k"

text \<open>The scenario of the specification: La Liga, one team.\<close>

definition real_madrid :: json where
  "real_madrid =
     JDict [(''rank'', JInt 1),
            (''team'', JDict [(''name'', JStr ''Real Madrid'')]),
            (''points'', JInt 90),
            (''all'', JDict [(''played'', JInt 38), (''win'', JInt 29), (''draw'', JInt 3),
                             (''lose'', JInt 6)])]"

definition body_of_groups :: "json list \<Rightarrow> json" where
  "body_of_groups groups =
     JDict [(''response'', JList [JDict [(''league'', JDict [(''standings'', JList groups)])]])]"

definition replies :: "json \<Rightarrow> http_request \<Rightarrow> pyexc + response" where
  "replies data req = Inr \<lparr>status_code = 200, http_error_msg = [], json_body = Inr data\<rparr>"

section \<open>Auxiliary facts\<close>

lemma bind_exc_Inl: "bind_exc (Inl e) f = Inl e"
  by (simp add: bind_exc_def)

lemma bind_exc_Inr: "bind_exc (Inr x) f = f x"
  by (simp add: bind_exc_def)

lemma getitem_str_field: "spec_field x k = Some v \<Longrightarrow> getitem_str x k = Inr v"
  by (cases x) simp_all

lemma getitem_str_field2:
  "spec_field2 x a b = Some v \<Longrightarrow> bind_exc (getitem_str x a) (\<lambda>y. getitem_str y b) = Inr v"
  by (auto simp: spec_field2_def bind_exc_Inr getitem_str_field split: option.splits)

lemma format_team_record:
  assumes "spec_record e = Some r"
  shows "format_team e = Inr r"
  using assms unfolding spec_record_def format_team_def
  by (auto simp: bind_exc_Inr getitem_str_field getitem_str_field2 split: option.splits)

lemma comprehension_records:
  "map spec_record es = map Some rs \<Longrightarrow> comprehension format_team es = Inr rs"
proof (induction es arbitrary: rs)
  case Nil
  then show ?case by simp
next
  case (Cons e es)
  then obtain r rs' where rs: "rs = r # rs'" and r: "spec_record e = Some r"
    and rest: "map spec_record es = map Some rs'"
    by (cases rs) auto
  from Cons.IH [OF rest] r show ?case
    by (simp add: rs bind_exc_Inr format_team_record)
qed

lemma standings_of_groups:
  assumes "spec_groups data = Some groups"
  shows "standings_of data = Inr (JList groups)"
    and "\<exists>r0 rs. dict_get data ''response'' = Inr (JList (r0 # rs))"
  using assms unfolding spec_groups_def standings_of_def spec_field2_def
  by (cases data; auto simp: bind_exc_Inr getitem_str_field
        split: option.splits json.splits list.splits)+

lemma reshape_groups:
  assumes "spec_groups data = Some (g # others)"
  shows "reshape data = formatted_standings g"
proof -
  from standings_of_groups [OF assms] obtain r0 rs where
    s: "standings_of data = Inr (JList (g # others))" and
    r: "dict_get data ''response'' = Inr (JList (r0 # rs))"
    by blast
  show ?thesis by (simp add: reshape_def s r bind_exc_Inr)
qed

lemma reshape_no_groups:
  assumes "spec_groups data = Some []"
  shows "reshape data = Inr (error_result ''No standings found for this league and season.'')"
proof -
  from standings_of_groups [OF assms] obtain r0 rs where
    s: "standings_of data = Inr (JList [])" and
    r: "dict_get data ''response'' = Inr (JList (r0 # rs))"
    by blast
  show ?thesis by (simp add: reshape_def s r bind_exc_Inr)
qed

lemma get_league_standings_resolved:
  assumes "map_of (registry w) (lower league_name) = Some lid" and "lid \<noteq> 0"
  shows "get_league_standings net w league_name season =
           (except_RequestException (try_body (net (standings_request w (Some lid) season))),
            w\<lparr>http_calls := http_calls w @ [standings_request w (Some lid) season]\<rparr>)"
  using assms by (simp add: get_league_standings_def get_league_id_def Let_def)

lemma try_body_ok:
  assumes "got = Inr resp" and "raise_for_status resp = None" and "json_body resp = Inr data"
  shows "try_body got = reshape data"
  using assms by (simp add: try_body_def bind_exc_Inr)


lemma get_league_standings_unresolved:
  assumes "map_of (registry w) (lower league_name) = None"
  shows "get_league_standings net w league_name season = (Inr (unknown_league league_name), w)"
  using assms by (simp add: get_league_standings_def get_league_id_def)

lemma formatted_standings_records:
  assumes "map spec_record entries = map Some records"
  shows "formatted_standings (JList entries) = Inr (JList records)"
  using comprehension_records [OF assms] by (simp add: formatted_standings_def bind_exc_Inr)

lemma reshape_shape:
  assumes "reshape data = Inr v"
  shows "v = error_result ''No standings found for this league and season.'' \<or> (\<exists>rs. v = JList rs)"
  using assms unfolding reshape_def formatted_standings_def bind_exc_def
  by (auto split: sum.splits if_splits)

lemma resolved_not_unknown:
  "except_RequestException (try_body got) \<noteq> Inr (unknown_league league_name)"
proof (cases "try_body got")
  case (Inl e)
  then show ?thesis by (cases e) (simp_all add: unknown_league_def error_result_def)
next
  case (Inr v)
  then obtain resp data where "reshape data = Inr v"
    by (auto simp: try_body_def bind_exc_def split: sum.splits option.splits)
  from reshape_shape [OF this] Inr show ?thesis
    by (auto simp: unknown_league_def error_result_def)
qed

lemma lower_upper_char: "lower_char (upper_char c) = lower_char c"
  by (simp add: lower_char_def upper_char_def)

lemma same_letter_lower: "spec_same_letter c d \<Longrightarrow> lower_char c = lower_char d"
  unfolding spec_same_letter_def
  by (elim disjE) (simp, simp add: lower_upper_char, metis lower_upper_char)

lemma case_variant_lower: "spec_case_variant s k \<Longrightarrow> lower s = lower k"
  unfolding spec_case_variant_def lower_def
  by (induction rule: list_all2_induct) (simp_all add: same_letter_lower)

lemma registry_keys_lower: "(k, lid) \<in> set LEAGUE_MAP \<Longrightarrow> lower k = k"
  by (auto simp: LEAGUE_MAP_def lower_def lower_char_def)

lemma registry_lookup: "(k, lid) \<in> set LEAGUE_MAP \<Longrightarrow> map_of LEAGUE_MAP k = Some lid"
  by (rule map_of_is_SomeI) (simp_all add: LEAGUE_MAP_def)

lemma getitem_str_exc: "getitem_str x k = Inl e \<Longrightarrow> e = KeyError \<or> e = TypeError"
  by (cases x) (auto split: option.splits)

lemma format_team_exc: "format_team t = Inl e \<Longrightarrow> e = KeyError \<or> e = TypeError"
  unfolding format_team_def bind_exc_def
  by (auto split: sum.splits dest: getitem_str_exc)

lemma comprehension_exc:
  "comprehension format_team ts = Inl e \<Longrightarrow> e = KeyError \<or> e = TypeError"
  by (induction ts) (auto simp: bind_exc_def split: sum.splits dest: format_team_exc)

lemma formatted_standings_exc:
  "formatted_standings g = Inl e \<Longrightarrow> e = KeyError \<or> e = TypeError"
  unfolding formatted_standings_def bind_exc_def
  by (cases g) (auto split: sum.splits dest: comprehension_exc)

lemma formatted_standings_not_caught:
  "except_RequestException (formatted_standings g) = formatted_standings g"
proof (cases "formatted_standings g")
  case (Inl e)
  with formatted_standings_exc [OF Inl] show ?thesis by auto
next
  case (Inr v)
  then show ?thesis by simp
qed

lemma registry_nonzero: "(k, lid) \<in> set LEAGUE_MAP \<Longrightarrow> lid \<noteq> 0"
  by (auto simp: LEAGUE_MAP_def)

section \<open>The claims\<close>

text \<open>
  Claim C1. When the league resolves, the request succeeds and the parsed body has the team
  entries \<open>entries\<close> at \<open>response[0].league.standings[0]\<close>, each with the fields
  \<open>rank\<close>, \<open>team.name\<close>, \<open>points\<close>, \<open>all.played\<close>, \<open>all.win\<close>, \<open>all.draw\<close>
  and \<open>all.lose\<close>, the tool returns the list of their Team Standing Records: as many
  records as entries, in the order of the entries, each built by the field mapping of the
  specification.
\<close>

theorem standings_records_in_order:
  assumes "map_of (registry w) (lower league_name) = Some lid" and "lid \<noteq> 0"
    and "net (standings_request w (Some lid) season) = Inr resp"
    and "raise_for_status resp = None" and "json_body resp = Inr data"
    and "spec_first_group data = Some entries"
    and "map spec_record entries = map Some records"
  shows "fst (get_league_standings net w league_name season) = Inr (JList records)
         \<and> length records = length entries"
proof -
  from assms(6) obtain others where g: "spec_groups data = Some (JList entries # others)"
    by (auto simp: spec_first_group_def split: option.splits list.splits json.splits)
  have "try_body (net (standings_request w (Some lid) season)) = Inr (JList records)"
    using try_body_ok [OF assms(3,4,5)] reshape_groups [OF g]
      formatted_standings_records [OF assms(7)] by simp
  moreover have "length records = length entries"
    using arg_cong [OF assms(7), of length] by simp
  ultimately show ?thesis
    by (simp add: get_league_standings_resolved [OF assms(1,2)])
qed

theorem standings_records_in_order_witness:
  "fst (get_league_standings (replies (body_of_groups [JList [real_madrid]]))
          (initial_world None) ''La Liga'' ''2024'') =
     Inr (JList [JDict [(''rank'', JInt 1), (''team'', JStr ''Real Madrid''),
       (''points'', JInt 90), (''games_played'', JInt 38), (''wins'', JInt 29),
       (''draws'', JInt 3), (''losses'', JInt 6)]])
   \<and> length [JDict [(''rank'', JInt 1), (''team'', JStr ''Real Madrid''),
       (''points'', JInt 90), (''games_played'', JInt 38), (''wins'', JInt 29),
       (''draws'', JInt 3), (''losses'', JInt 6)]] = length [real_madrid]"
proof -
  have 1: "map_of (registry (initial_world None)) (lower ''La Liga'') = Some 140"
    by (simp add: initial_world_def LEAGUE_MAP_def lower_def lower_char_def)
  have 2: "(140::int) \<noteq> 0" by simp
  have 3: "replies (body_of_groups [JList [real_madrid]])
             (standings_request (initial_world None) (Some 140) ''2024'') =
           Inr \<lparr>status_code = 200, http_error_msg = [],
             json_body = Inr (body_of_groups [JList [real_madrid]])\<rparr>"
    by (simp add: replies_def)
  have 6: "spec_first_group (body_of_groups [JList [real_madrid]]) = Some [real_madrid]"
    by (simp add: spec_first_group_def spec_groups_def spec_field2_def body_of_groups_def)
  have 7: "map spec_record [real_madrid] =
     map Some [JDict [(''rank'', JInt 1), (''team'', JStr ''Real Madrid''),
       (''points'', JInt 90), (''games_played'', JInt 38), (''wins'', JInt 29),
       (''draws'', JInt 3), (''losses'', JInt 6)]]"
    by (simp add: spec_record_def spec_field2_def real_madrid_def)
  have 4: "raise_for_status \<lparr>status_code = 200, http_error_msg = [],
             json_body = Inr (body_of_groups [JList [real_madrid]])\<rparr> = None"
    by (simp add: raise_for_status_def)
  have 5: "json_body \<lparr>status_code = 200, http_error_msg = [],
             json_body = Inr (body_of_groups [JList [real_madrid]])\<rparr> =
           Inr (body_of_groups [JList [real_madrid]])"
    by simp
  show ?thesis
    by (rule standings_records_in_order [where net = "replies (body_of_groups [JList [real_madrid]])",
          OF 1 2 3 4 5 6 7])
qed

text \<open>
  Claim C2. For a league name that is not in the registry after lowercasing, and any
  season, the tool returns the single error object whose message is
  \<open>Could not find a league with the name '<league_name>'.\<close> with the name as given, and
  the module state is unchanged: no HTTP call is recorded, whatever the network would
  have answered.
\<close>

theorem unknown_league_no_http_call:
  assumes "lower league_name \<notin> fst ` set (registry w)"
  shows "get_league_standings net w league_name season =
           (Inr (JDict [(''error'', JStr (''Could not find a league with the name ''
              @ [CHR 0x27] @ league_name @ [CHR 0x27] @ ''.''))]), w)"
proof -
  from assms have "map_of (registry w) (lower league_name) = None"
    by (simp add: map_of_eq_None_iff)
  then show ?thesis
    by (simp add: get_league_standings_unresolved unknown_league_def error_result_def)
qed

theorem unknown_league_no_http_call_witness:
  "lower ''Unknown League'' \<notin> fst ` set (registry (initial_world None)) \<and>
   get_league_standings (replies JNull) (initial_world None) ''Unknown League'' ''2024'' =
     (Inr (JDict [(''error'',
        JStr (''Could not find a league with the name '' @ [CHR 0x27] @ ''Unknown League''
          @ [CHR 0x27] @ ''.''))]),
      initial_world None)"
proof -
  have 1: "lower ''Unknown League'' \<notin> fst ` set (registry (initial_world None))"
    by (simp add: initial_world_def LEAGUE_MAP_def lower_def lower_char_def)
  show ?thesis using 1 unknown_league_no_http_call [OF 1, of "replies JNull" "''2024''"] by simp
qed

text \<open>
  Claim C3, amended. The claim names every non-2xx status as a failure the tool reports;
  \<^verbatim>\<open>raise_for_status()\<close> raises only for the statuses from 400 to 599, and for a 304
  with a body the tool goes on and returns the records. What holds: when the league resolves
  and \<^verbatim>\<open>requests.get\<close> raises a \<^verbatim>\<open>RequestException\<close> (a network error or a timeout),
  or the server answers with a 4xx or 5xx status, the tool does not raise: it returns the
  error object whose message is \<open>API request failed: \<close> followed by the text of the
  exception, and exactly one request has been added to the calls made.
\<close>

theorem request_failure_caught:
  assumes "map_of (registry w) (lower league_name) = Some lid" and "lid \<noteq> 0"
    and "net (standings_request w (Some lid) season) = Inl (RequestException e)
         \<or> (\<exists>resp. net (standings_request w (Some lid) season) = Inr resp
               \<and> 400 \<le> status_code resp \<and> status_code resp < 600
               \<and> http_error_msg resp = e)"
  shows "get_league_standings net w league_name season =
           (Inr (JDict [(''error'', JStr (''API request failed: '' @ e))]),
            w\<lparr>http_calls := http_calls w @ [standings_request w (Some lid) season]\<rparr>)"
proof -
  from assms(3) have "try_body (net (standings_request w (Some lid) season)) =
      Inl (RequestException e)"
    by (auto simp: try_body_def raise_for_status_def bind_exc_Inl bind_exc_Inr)
  then show ?thesis
    by (simp add: get_league_standings_resolved [OF assms(1,2)] error_result_def)
qed

theorem request_failure_caught_witness:
  "get_league_standings (\<lambda>req. Inl (RequestException ''Connection refused''))
     (initial_world None) ''mls'' ''2024'' =
     (Inr (JDict [(''error'', JStr ''API request failed: Connection refused'')]),
      (initial_world None)\<lparr>http_calls :=
         [standings_request (initial_world None) (Some 253) ''2024'']\<rparr>)
   \<and> get_league_standings
       (\<lambda>req. Inr \<lparr>status_code = 404, http_error_msg = ''404 Client Error: Not Found'',
                    json_body = Inr JNull\<rparr>)
       (initial_world None) ''mls'' ''2024'' =
     (Inr (JDict [(''error'', JStr ''API request failed: 404 Client Error: Not Found'')]),
      (initial_world None)\<lparr>http_calls :=
         [standings_request (initial_world None) (Some 253) ''2024'']\<rparr>)
   \<and> get_league_standings
       (\<lambda>req. Inr \<lparr>status_code = 503, http_error_msg = ''503 Server Error: Unavailable'',
                    json_body = Inr (body_of_groups [JList [real_madrid]])\<rparr>)
       (initial_world None) ''mls'' ''2024'' =
     (Inr (JDict [(''error'', JStr ''API request failed: 503 Server Error: Unavailable'')]),
      (initial_world None)\<lparr>http_calls :=
         [standings_request (initial_world None) (Some 253) ''2024'']\<rparr>)"
proof -
  have 1: "map_of (registry (initial_world None)) (lower ''mls'') = Some 253"
    by (simp add: initial_world_def LEAGUE_MAP_def lower_def lower_char_def)
  have 2: "(253::int) \<noteq> 0" by simp
  have a: "get_league_standings (\<lambda>req. Inl (RequestException ''Connection refused''))
     (initial_world None) ''mls'' ''2024'' =
     (Inr (JDict [(''error'', JStr (''API request failed: '' @ ''Connection refused''))]),
      (initial_world None)\<lparr>http_calls := http_calls (initial_world None) @
         [standings_request (initial_world None) (Some 253) ''2024'']\<rparr>)"
    by (rule request_failure_caught [OF 1 2]) simp
  have b: "get_league_standings
       (\<lambda>req. Inr \<lparr>status_code = 404, http_error_msg = ''404 Client Error: Not Found'',
                    json_body = Inr JNull\<rparr>)
       (initial_world None) ''mls'' ''2024'' =
     (Inr (JDict [(''error'',
        JStr (''API request failed: '' @ ''404 Client Error: Not Found''))]),
      (initial_world None)\<lparr>http_calls := http_calls (initial_world None) @
         [standings_request (initial_world None) (Some 253) ''2024'']\<rparr>)"
    by (rule request_failure_caught [OF 1 2]) simp
  have c: "get_league_standings
       (\<lambda>req. Inr \<lparr>status_code = 503, http_error_msg = ''503 Server Error: Unavailable'',
                    json_body = Inr (body_of_groups [JList [real_madrid]])\<rparr>)
       (initial_world None) ''mls'' ''2024'' =
     (Inr (JDict [(''error'',
        JStr (''API request failed: '' @ ''503 Server Error: Unavailable''))]),
      (initial_world None)\<lparr>http_calls := http_calls (initial_world None) @
         [standings_request (initial_world None) (Some 253) ''2024'']\<rparr>)"
    by (rule request_failure_caught [OF 1 2]) simp
  have d: "http_calls (initial_world None) = []" by (simp add: initial_world_def)
  show ?thesis using a b c by (simp add: d)
qed

text \<open>
  The claim as stated fails for a status that is neither 2xx nor an error status: the
  server answers 304, the body holds one team, and the tool returns its record, not the
  error object.
\<close>

theorem status_304_returns_records:
  "fst (get_league_standings
          (\<lambda>req. Inr \<lparr>status_code = 304, http_error_msg = ''304 Not Modified'',
                       json_body = Inr (body_of_groups [JList [real_madrid]])\<rparr>)
          (initial_world None) ''La Liga'' ''2024'') =
     Inr (JList [JDict [(''rank'', JInt 1), (''team'', JStr ''Real Madrid''),
       (''points'', JInt 90), (''games_played'', JInt 38), (''wins'', JInt 29),
       (''draws'', JInt 3), (''losses'', JInt 6)]])"
  by (simp add: get_league_standings_def get_league_id_def initial_world_def LEAGUE_MAP_def
      lower_def lower_char_def Let_def try_body_def raise_for_status_def bind_exc_def
      reshape_def body_of_groups_def standings_of_def formatted_standings_def format_team_def
      real_madrid_def)

text \<open>
  Claim C4, amended. The claim speaks of every parsed body; a body that is not an object
  (\<open>null\<close>, an array) has no \<open>response\<close> field either, and there the tool faults on
  \<^verbatim>\<open>data.get\<close> instead of returning. What holds: when the league resolves, the request
  succeeds and the parsed body is an object whose \<open>response\<close> field is absent or empty,
  or whose array \<open>response[0].league.standings\<close> is empty, the tool returns exactly the
  error object with the message \<open>No standings found for this league and season.\<close>
\<close>

theorem empty_result_no_standings:
  assumes "map_of (registry w) (lower league_name) = Some lid" and "lid \<noteq> 0"
    and "net (standings_request w (Some lid) season) = Inr resp"
    and "raise_for_status resp = None" and "json_body resp = Inr (JDict body)"
    and "map_of body ''response'' = None
         \<or> (\<exists>r. map_of body ''response'' = Some r \<and> spec_empty r)
         \<or> spec_groups (JDict body) = Some []"
  shows "fst (get_league_standings net w league_name season) =
           Inr (JDict [(''error'', JStr ''No standings found for this league and season.'')])"
proof -
  have "reshape (JDict body) =
      Inr (error_result ''No standings found for this league and season.'')"
    using assms(6)
  proof (elim disjE exE conjE)
    assume "map_of body ''response'' = None"
    then show ?thesis by (simp add: reshape_def bind_exc_Inr)
  next
    fix r assume "map_of body ''response'' = Some r" and "spec_empty r"
    then show ?thesis by (cases r rule: spec_empty.cases) (simp_all add: reshape_def bind_exc_Inr)
  next
    assume "spec_groups (JDict body) = Some []"
    then show ?thesis by (rule reshape_no_groups)
  qed
  then show ?thesis
    using try_body_ok [OF assms(3,4,5)]
    by (simp add: get_league_standings_resolved [OF assms(1,2)] error_result_def)
qed

theorem empty_result_no_standings_witness:
  "fst (get_league_standings (replies (JDict [])) (initial_world None) ''Serie A'' ''2024'') =
     Inr (JDict [(''error'', JStr ''No standings found for this league and season.'')])
   \<and> fst (get_league_standings (replies (JDict [(''response'', JList [])]))
       (initial_world None) ''Serie A'' ''2024'') =
     Inr (JDict [(''error'', JStr ''No standings found for this league and season.'')])
   \<and> fst (get_league_standings (replies (body_of_groups []))
       (initial_world None) ''Serie A'' ''2024'') =
     Inr (JDict [(''error'', JStr ''No standings found for this league and season.'')])"
proof -
  have 1: "map_of (registry (initial_world None)) (lower ''Serie A'') = Some 135"
    by (simp add: initial_world_def LEAGUE_MAP_def lower_def lower_char_def)
  have 2: "(135::int) \<noteq> 0" by simp
  have 3: "replies d (standings_request (initial_world None) (Some 135) ''2024'') =
           Inr \<lparr>status_code = 200, http_error_msg = [], json_body = Inr d\<rparr>" for d
    by (simp add: replies_def)
  have 4: "raise_for_status \<lparr>status_code = 200, http_error_msg = [], json_body = Inr d\<rparr> = None" for d :: json
    by (simp add: raise_for_status_def)
  have 5: "json_body \<lparr>status_code = 200, http_error_msg = [], json_body = Inr d\<rparr> = Inr d" for d :: json
    by simp
  have a: "map_of [] ''response'' = None
         \<or> (\<exists>r. map_of [] ''response'' = Some r \<and> spec_empty r)
         \<or> spec_groups (JDict []) = Some []"
    by simp
  have b: "map_of [(''response'', JList [])] ''response'' = None
         \<or> (\<exists>r. map_of [(''response'', JList [])] ''response'' = Some r \<and> spec_empty r)
         \<or> spec_groups (JDict [(''response'', JList [])]) = Some []"
    by simp
  have c: "map_of [(''response'', JList [JDict [(''league'', JDict [(''standings'', JList [])])]])]
             ''response'' = None
         \<or> (\<exists>r. map_of [(''response'', JList [JDict [(''league'', JDict [(''standings'', JList [])])]])]
             ''response'' = Some r \<and> spec_empty r)
         \<or> spec_groups (JDict [(''response'', JList [JDict [(''league'', JDict [(''standings'', JList [])])]])]) = Some []"
    by (simp add: spec_groups_def spec_field2_def)
  show ?thesis
    using empty_result_no_standings [where net = "replies (JDict [])", OF 1 2 3 4 5 a]
      empty_result_no_standings [where net = "replies (JDict [(''response'', JList [])])",
        OF 1 2 3 4 5 b]
      empty_result_no_standings [where net = "replies (JDict [(''response'',
          JList [JDict [(''league'', JDict [(''standings'', JList [])])]])])",
        OF 1 2 3 4 5 c]
    by (simp add: body_of_groups_def)
qed

text \<open>
  The claim as stated fails for a body that is not an object: the parsed bodies \<open>[]\<close> and
  \<open>null\<close> have no \<open>response\<close> field, and the tool raises \<^verbatim>\<open>AttributeError\<close>.
\<close>

theorem non_object_body_faults:
  "spec_field (JList []) ''response'' = None
   \<and> fst (get_league_standings (replies (JList [])) (initial_world None)
         ''Serie A'' ''2024'') = Inl AttributeError
   \<and> spec_field JNull ''response'' = None
   \<and> fst (get_league_standings (replies JNull) (initial_world None)
         ''Serie A'' ''2024'') = Inl AttributeError"
  by (simp add: get_league_standings_def get_league_id_def initial_world_def LEAGUE_MAP_def
      lower_def lower_char_def Let_def replies_def try_body_def raise_for_status_def
      bind_exc_def reshape_def)

text \<open>
  Claim C5. The claim says that a call that returns gives either a non-empty list of Team
  Standing Records or one error object, never an empty list. The guard of line 85 tests
  that \<open>response\<close> and \<open>response[0].league.standings\<close> are non-empty, but not that
  the first group is: for the body \<open>{"response": [{"league": {"standings": [[]]}}]}\<close> the
  tool returns the empty list, after one HTTP call.
\<close>

theorem empty_first_group_returns_empty_list:
  "get_league_standings (replies (body_of_groups [JList []])) (initial_world None)
     ''Premier League'' ''2024'' =
   (Inr (JList []),
    (initial_world None)\<lparr>http_calls :=
       [standings_request (initial_world None) (Some 39) ''2024'']\<rparr>)"
  by (simp add: get_league_standings_def get_league_id_def initial_world_def LEAGUE_MAP_def
      lower_def lower_char_def Let_def replies_def try_body_def raise_for_status_def
      bind_exc_def reshape_def
      body_of_groups_def standings_of_def formatted_standings_def)

text \<open>
  Claim C6. With the registry of the source, every case variant of a key of the registry
  resolves to the ID registered for that key; in particular \<open>Premier League\<close>,
  \<open>premier league\<close> and \<open>PREMIER LEAGUE\<close> all resolve to \<open>39\<close>.
\<close>

theorem resolution_case_insensitive:
  assumes "registry w = LEAGUE_MAP" and "(k, lid) \<in> set LEAGUE_MAP" and "spec_case_variant s k"
  shows "fst (get_league_id w s) = Some lid
     \<and> fst (get_league_id w ''Premier League'') = Some 39
     \<and> fst (get_league_id w ''premier league'') = Some 39
     \<and> fst (get_league_id w ''PREMIER LEAGUE'') = Some 39"
proof -
  have "lower s = k"
    using case_variant_lower [OF assms(3)] registry_keys_lower [OF assms(2)] by simp
  then have "fst (get_league_id w s) = Some lid"
    by (simp add: get_league_id_def assms(1) registry_lookup [OF assms(2)])
  moreover have "fst (get_league_id w ''Premier League'') = Some 39"
    "fst (get_league_id w ''premier league'') = Some 39"
    "fst (get_league_id w ''PREMIER LEAGUE'') = Some 39"
    by (simp_all add: get_league_id_def assms(1) LEAGUE_MAP_def lower_def lower_char_def)
  ultimately show ?thesis by simp
qed

theorem resolution_case_insensitive_witness:
  "registry (initial_world None) = LEAGUE_MAP
   \<and> (''la liga'', 140) \<in> set LEAGUE_MAP
   \<and> spec_case_variant ''La LIGA'' ''la liga''
   \<and> fst (get_league_id (initial_world None) ''La LIGA'') = Some 140
   \<and> fst (get_league_id (initial_world None) ''Premier League'') = Some 39
   \<and> fst (get_league_id (initial_world None) ''premier league'') = Some 39
   \<and> fst (get_league_id (initial_world None) ''PREMIER LEAGUE'') = Some 39"
proof -
  have 1: "registry (initial_world None) = LEAGUE_MAP"
    by (simp add: initial_world_def)
  have 2: "(''la liga'', 140) \<in> set LEAGUE_MAP"
    by (simp add: LEAGUE_MAP_def)
  have 3: "spec_case_variant ''La LIGA'' ''la liga''"
    by (simp add: spec_case_variant_def spec_same_letter_def upper_char_def)
  show ?thesis using 1 2 3 resolution_case_insensitive [OF 1 2 3] by simp
qed

text \<open>
  Claim C7. When the league resolves and the request succeeds, two parsed bodies whose
  arrays \<open>response[0].league.standings\<close> start with the same group \<open>g\<close> give the same
  outcome, whatever the other groups are (and whatever else the bodies hold): the result
  is what the comprehension makes of \<open>g\<close> alone.
\<close>

theorem only_first_group_used:
  assumes "map_of (registry w) (lower league_name) = Some lid" and "lid \<noteq> 0"
    and "net (standings_request w (Some lid) season) = Inr resp"
    and "raise_for_status resp = None" and "json_body resp = Inr data"
    and "net' (standings_request w (Some lid) season) = Inr resp'"
    and "raise_for_status resp' = None" and "json_body resp' = Inr data'"
    and "spec_groups data = Some (g # others)"
    and "spec_groups data' = Some (g # others')"
  shows "get_league_standings net w league_name season =
           get_league_standings net' w league_name season
         \<and> fst (get_league_standings net w league_name season) = formatted_standings g"
proof -
  have "try_body (net (standings_request w (Some lid) season)) = formatted_standings g"
    using try_body_ok [OF assms(3,4,5)] reshape_groups [OF assms(9)] by simp
  moreover have "try_body (net' (standings_request w (Some lid) season)) = formatted_standings g"
    using try_body_ok [OF assms(6,7,8)] reshape_groups [OF assms(10)] by simp
  ultimately show ?thesis
    by (simp add: get_league_standings_resolved [OF assms(1,2)] formatted_standings_not_caught)
qed

theorem only_first_group_used_witness:
  "get_league_standings (replies (body_of_groups [JList [real_madrid], JList []]))
     (initial_world None) ''La Liga'' ''2024'' =
   get_league_standings (replies (body_of_groups [JList [real_madrid], JStr ''away'', JInt 7]))
     (initial_world None) ''La Liga'' ''2024''
   \<and> fst (get_league_standings (replies (body_of_groups [JList [real_madrid], JList []]))
       (initial_world None) ''La Liga'' ''2024'') = formatted_standings (JList [real_madrid])
   \<and> formatted_standings (JList [real_madrid]) =
       Inr (JList [JDict [(''rank'', JInt 1), (''team'', JStr ''Real Madrid''),
         (''points'', JInt 90), (''games_played'', JInt 38), (''wins'', JInt 29),
         (''draws'', JInt 3), (''losses'', JInt 6)]])"
proof -
  have 1: "map_of (registry (initial_world None)) (lower ''La Liga'') = Some 140"
    by (simp add: initial_world_def LEAGUE_MAP_def lower_def lower_char_def)
  have 2: "(140::int) \<noteq> 0" by simp
  have 3: "replies d (standings_request (initial_world None) (Some 140) ''2024'') =
           Inr \<lparr>status_code = 200, http_error_msg = [], json_body = Inr d\<rparr>" for d
    by (simp add: replies_def)
  have 4: "raise_for_status \<lparr>status_code = 200, http_error_msg = [], json_body = Inr d\<rparr> = None" for d :: json
    by (simp add: raise_for_status_def)
  have 5: "json_body \<lparr>status_code = 200, http_error_msg = [], json_body = Inr d\<rparr> = Inr d" for d :: json
    by simp
  have 6: "spec_groups (body_of_groups gs) = Some gs" for gs
    by (simp add: spec_groups_def spec_field2_def body_of_groups_def)
  have 7: "formatted_standings (JList [real_madrid]) =
       Inr (JList [JDict [(''rank'', JInt 1), (''team'', JStr ''Real Madrid''),
         (''points'', JInt 90), (''games_played'', JInt 38), (''wins'', JInt 29),
         (''draws'', JInt 3), (''losses'', JInt 6)]])"
    by (simp add: formatted_standings_def format_team_def bind_exc_def real_madrid_def)
  note t = only_first_group_used
      [where net = "replies (body_of_groups [JList [real_madrid], JList []])"
         and net' = "replies (body_of_groups [JList [real_madrid], JStr ''away'', JInt 7])",
       OF 1 2 3 4 5 3 4 5 6 6]
  show ?thesis
    by (intro conjI) (rule conjunct1 [OF t], rule conjunct2 [OF t], rule 7)
qed

text \<open>
  Claim C8. There are parsed bodies, beyond the checked empty conditions, for which the
  tool returns no error object but lets a structural-access fault escape: a team entry
  whose \<open>team\<close> object has no \<open>name\<close>, and a non-empty \<open>response\<close> whose first
  element has no \<open>league\<close> key, both end in an uncaught \<^verbatim>\<open>KeyError\<close>.
\<close>

theorem malformed_shape_faults:
  "fst (get_league_standings
          (replies (body_of_groups
             [JList [JDict [(''rank'', JInt 1), (''team'', JDict [(''id'', JInt 541)]),
                            (''points'', JInt 90),
                            (''all'', JDict [(''played'', JInt 38), (''win'', JInt 29),
                                             (''draw'', JInt 3), (''lose'', JInt 6)])]]]))
          (initial_world None) ''La Liga'' ''2024'') = Inl KeyError
   \<and> fst (get_league_standings
          (replies (JDict [(''response'', JList [JDict [(''results'', JInt 0)]])]))
          (initial_world None) ''La Liga'' ''2024'') = Inl KeyError"
  by (simp add: get_league_standings_def get_league_id_def initial_world_def LEAGUE_MAP_def
      lower_def lower_char_def Let_def replies_def try_body_def raise_for_status_def
      bind_exc_def reshape_def
      body_of_groups_def standings_of_def formatted_standings_def format_team_def)

text \<open>
  Claim C9. For every input string the resolver returns what the registry holds for the
  lowercased name: the registered ID when the lowercased name is a key (the keys of a
  dictionary are distinct), the absent value otherwise; and the module state, the registry
  with it, is handed back as it was.
\<close>

theorem get_league_id_lookup:
  assumes "distinct (map fst (registry w))"
  shows "fst (get_league_id w league_name) = map_of (registry w) (lower league_name)
     \<and> ((lower league_name, lid) \<in> set (registry w) \<longrightarrow>
          fst (get_league_id w league_name) = Some lid)
     \<and> (lower league_name \<notin> fst ` set (registry w) \<longrightarrow>
          fst (get_league_id w league_name) = None)
     \<and> snd (get_league_id w league_name) = w"
  using assms by (auto simp: get_league_id_def map_of_eq_None_iff)

theorem get_league_id_lookup_witness:
  "distinct (map fst (registry (initial_world None)))
   \<and> (lower ''Bundesliga'', 78) \<in> set (registry (initial_world None))
   \<and> get_league_id (initial_world None) ''Bundesliga'' = (Some 78, initial_world None)
   \<and> lower ''Eredivisie'' \<notin> fst ` set (registry (initial_world None))
   \<and> get_league_id (initial_world None) ''Eredivisie'' = (None, initial_world None)"
proof -
  have 1: "distinct (map fst (registry (initial_world None)))"
    by (simp add: initial_world_def LEAGUE_MAP_def)
  have 2: "(lower ''Bundesliga'', 78) \<in> set (registry (initial_world None))"
    by (simp add: initial_world_def LEAGUE_MAP_def lower_def lower_char_def)
  have 3: "lower ''Eredivisie'' \<notin> fst ` set (registry (initial_world None))"
    by (simp add: initial_world_def LEAGUE_MAP_def lower_def lower_char_def)
  have a: "get_league_id (initial_world None) ''Bundesliga'' = (Some 78, initial_world None)"
    using 2 get_league_id_lookup [OF 1, of "''Bundesliga''" 78] by (intro prod_eqI) auto
  have b: "get_league_id (initial_world None) ''Eredivisie'' = (None, initial_world None)"
    using 3 get_league_id_lookup [OF 1, of "''Eredivisie''" 0] by (intro prod_eqI) auto
  show ?thesis
    using 1 2 3 a b by blast
qed

text \<open>
  Claim C10. No ID of \<^verbatim>\<open>LEAGUE_MAP\<close> is zero; so, with that registry, the test
  \<^verbatim>\<open>not league_id\<close> holds exactly when the resolver returned the absent value, and the
  tool returns the unresolved-league error exactly when the lowercased name is not a key of
  the registry.
\<close>

theorem unresolved_branch_iff_not_key:
  assumes "registry w = LEAGUE_MAP"
  shows "0 \<notin> snd ` set LEAGUE_MAP
     \<and> (not_league_id (fst (get_league_id w league_name)) \<longleftrightarrow>
          fst (get_league_id w league_name) = None)
     \<and> (fst (get_league_standings net w league_name season) = Inr (unknown_league league_name)
          \<longleftrightarrow> lower league_name \<notin> fst ` set LEAGUE_MAP)"
proof (intro conjI)
  show "0 \<notin> snd ` set LEAGUE_MAP"
    by (simp add: LEAGUE_MAP_def)
next
  show "not_league_id (fst (get_league_id w league_name)) \<longleftrightarrow>
          fst (get_league_id w league_name) = None"
  proof (cases "map_of LEAGUE_MAP (lower league_name)")
    case None
    then show ?thesis by (simp add: get_league_id_def assms)
  next
    case (Some lid)
    then have "lid \<noteq> 0" by (auto dest: map_of_SomeD registry_nonzero)
    with Some show ?thesis by (simp add: get_league_id_def assms)
  qed
next
  show "fst (get_league_standings net w league_name season) = Inr (unknown_league league_name)
          \<longleftrightarrow> lower league_name \<notin> fst ` set LEAGUE_MAP"
  proof (cases "map_of LEAGUE_MAP (lower league_name)")
    case None
    then have "lower league_name \<notin> fst ` set LEAGUE_MAP"
      by (simp add: map_of_eq_None_iff)
    moreover have "map_of (registry w) (lower league_name) = None"
      using None assms by simp
    ultimately show ?thesis
      by (simp add: get_league_standings_unresolved)
  next
    case (Some lid)
    then have nz: "lid \<noteq> 0" by (auto dest: map_of_SomeD registry_nonzero)
    have key: "lower league_name \<in> fst ` set LEAGUE_MAP"
      using Some by (metis map_of_eq_None_iff option.distinct(1))
    have "map_of (registry w) (lower league_name) = Some lid"
      using Some assms by simp
    from get_league_standings_resolved [OF this nz] key show ?thesis
      by (simp add: resolved_not_unknown)
  qed
qed

theorem unresolved_branch_iff_not_key_witness:
  "registry (initial_world None) = LEAGUE_MAP
   \<and> 0 \<notin> snd ` set LEAGUE_MAP
   \<and> fst (get_league_id (initial_world None) ''Champions League'') = Some 2
   \<and> \<not> not_league_id (fst (get_league_id (initial_world None) ''Champions League''))
   \<and> lower ''Champions League'' \<in> fst ` set LEAGUE_MAP
   \<and> fst (get_league_standings (replies JNull) (initial_world None) ''Champions League''
         ''2024'') \<noteq> Inr (unknown_league ''Champions League'')"
proof -
  have 1: "registry (initial_world None) = LEAGUE_MAP"
    by (simp add: initial_world_def)
  have 2: "fst (get_league_id (initial_world None) ''Champions League'') = Some 2"
    by (simp add: get_league_id_def initial_world_def LEAGUE_MAP_def lower_def lower_char_def)
  have 3: "lower ''Champions League'' \<in> fst ` set LEAGUE_MAP"
    by (simp add: LEAGUE_MAP_def lower_def lower_char_def)
  show ?thesis
    using 1 2 3 unresolved_branch_iff_not_key [OF 1, of "''Champions League''" "replies JNull" "''2024''"]
    by simp
qed

end
